theory Spec2Isabelle
  imports Main
begin

section \<open>Python values, errors and effects\<close>

text \<open>
  The module \<^verbatim>\<open>nuitka/utils/WindowsResources.py\<close> is a thin layer of Python over
  the resource functions of \<^verbatim>\<open>kernel32\<close>, reached through \<^verbatim>\<open>ctypes\<close>.  Its
  functions are embedded as state transformers that may raise: a computation takes a
  state and returns either an error or a value, with the state it reached.
\<close>

datatype pyobj = PyNone | PyInt int | PyBytes string | PyStr string | PyTuple "pyobj list"

text \<open>
  What a call through ctypes can raise by itself: \<^verbatim>\<open>ctypes.ArgumentError\<close> when an
  argument cannot be converted, the \<^verbatim>\<open>OSError\<close> ctypes makes of an access
  violation, and the \<^verbatim>\<open>SystemError\<close> of \<^verbatim>\<open>string_at\<close> on a negative size.  The
  other errors are raised by the Python code of the module.
\<close>

datatype ffi_error = ArgumentError | AccessViolation | SystemError

datatype error =
  WinError | AttributeError | TypeError | ValueError | AssertionError | Foreign ffi_error

text \<open>Truth value of an object, as \<^verbatim>\<open>if not ret\<close> tests it.\<close>

fun truthy :: "pyobj \<Rightarrow> bool" where
  "truthy PyNone = False"
| "truthy (PyInt n) = (n \<noteq> 0)"
| "truthy (PyBytes b) = (b \<noteq> [])"
| "truthy (PyStr t) = (t \<noteq> [])"
| "truthy (PyTuple xs) = (xs \<noteq> [])"

text \<open>\<^verbatim>\<open>len(data)\<close>: defined on sequences, a \<^verbatim>\<open>TypeError\<close> otherwise.\<close>

fun py_len :: "pyobj \<Rightarrow> error + int" where
  "py_len (PyBytes b) = Inr (int (length b))"
| "py_len (PyStr t) = Inr (int (length t))"
| "py_len (PyTuple xs) = Inr (int (length xs))"
| "py_len PyNone = Inl TypeError"
| "py_len (PyInt n) = Inl TypeError"

type_synonym ('a, 's) py = "'s \<Rightarrow> (error + 'a) \<times> 's"

definition ret_py :: "'a \<Rightarrow> ('a, 's) py" where
  "ret_py v = (\<lambda>s. (Inr v, s))"

definition raise_py :: "error \<Rightarrow> ('a, 's) py" where
  "raise_py e = (\<lambda>s. (Inl e, s))"

text \<open>Sequencing: an error of the first statement skips the rest.\<close>

definition then_py :: "('a, 's) py \<Rightarrow> ('a \<Rightarrow> ('b, 's) py) \<Rightarrow> ('b, 's) py" where
  "then_py m f = (\<lambda>s. case m s of (Inl e, s') \<Rightarrow> (Inl e, s') | (Inr v, s') \<Rightarrow> f v s')"

text \<open>
  \<^verbatim>\<open>try: body finally: fin\<close>.  The \<^verbatim>\<open>finally\<close> block runs whether the body
  raised or not; an error of the block itself replaces the outcome of the body.
\<close>

definition try_finally :: "('a, 's) py \<Rightarrow> ('b, 's) py \<Rightarrow> ('a, 's) py" where
  "try_finally body fin =
     (\<lambda>s. case body s of (r, s') \<Rightarrow>
        (case fin s' of (Inl e, s'') \<Rightarrow> (Inl e, s'') | (Inr _, s'') \<Rightarrow> (r, s'')))"

section \<open>The platform: kernel32 behind ctypes\<close>

text \<open>
  The entry points of \<^verbatim>\<open>ctypes.windll.kernel32\<close> that exist for resources, the
  narrow (\<^verbatim>\<open>A\<close>) and the wide (\<^verbatim>\<open>W\<close>) ones.
\<close>

datatype entry_point =
  LoadLibraryExA | LoadLibraryExW | FreeLibrary
| EnumResourceNamesA | EnumResourceNamesW
| FindResourceA | FindResourceW
| SizeofResource | LoadResource | LockResource | FreeResource
| BeginUpdateResourceA | BeginUpdateResourceW
| UpdateResourceA | UpdateResourceW
| EndUpdateResourceA | EndUpdateResourceW

type_synonym call = "entry_point \<times> pyobj list"

text \<open>
  What ctypes does with an error raised inside a callback: hand it on to the caller of
  the foreign function, or report and drop it, the foreign function then seeing the
  given return value.
\<close>

datatype cb_outcome = Propagate | Ignore bool

text \<open>
  The operating system is not part of the module: it is a parameter.  \<open>'w\<close> is the
  state of the system (files, handle tables, memory).
  \<^item> \<open>py3\<close>: whether \<^verbatim>\<open>str is not bytes\<close> (Python 3);
  \<^item> \<open>foreign f args w\<close>: the outcome of calling entry point \<open>f\<close>, an error when
    ctypes cannot convert an argument or the call faults;
  \<^item> \<open>enum_entries args w\<close>: for \<^verbatim>\<open>EnumResourceNamesA(hmodule, kind, cb, None)\<close>,
    an error raised by the call before any callback, or the \<open>(hModule, lpType, lpName)\<close>
    the system passes to the callback, in its order;
  \<^item> \<open>callback_raised\<close>: the treatment of an error raised by the callback;
  \<^item> \<open>string_at ptr size w\<close>: \<^verbatim>\<open>ctypes.string_at\<close>, a read of memory.
\<close>

record 'w platform =
  py3 :: bool
  foreign :: "entry_point \<Rightarrow> pyobj list \<Rightarrow> 'w \<Rightarrow> (ffi_error + pyobj) \<times> 'w"
  enum_entries :: "pyobj list \<Rightarrow> 'w \<Rightarrow> ffi_error + (pyobj \<times> pyobj \<times> pyobj) list"
  callback_raised :: cb_outcome
  string_at :: "pyobj \<Rightarrow> pyobj \<Rightarrow> 'w \<Rightarrow> ffi_error + pyobj"

text \<open>
  The state a function runs in: the system, the calls made to it so far (oldest first),
  and whether the submodule \<^verbatim>\<open>ctypes.wintypes\<close> has been imported in this process
  (\<^verbatim>\<open>import ctypes\<close> alone does not bind the attribute \<^verbatim>\<open>ctypes.wintypes\<close>).
\<close>

record 'w state =
  world :: 'w
  trace :: "call list"
  wintypes :: bool

definition from_ffi :: "ffi_error + 'a \<Rightarrow> error + 'a" where
  "from_ffi r = (case r of Inl e \<Rightarrow> Inl (Foreign e) | Inr v \<Rightarrow> Inr v)"

definition call :: "'w platform \<Rightarrow> entry_point \<Rightarrow> pyobj list \<Rightarrow> (pyobj, 'w state) py" where
  "call p f args =
     (\<lambda>s. case foreign p f args (world s) of
        (r, w) \<Rightarrow> (from_ffi r, s\<lparr>world := w, trace := trace s @ [(f, args)]\<rparr>))"

text \<open>\<^verbatim>\<open>import ctypes.wintypes\<close>\<close>

definition import_wintypes :: "(unit, 'w state) py" where
  "import_wintypes = (\<lambda>s. (Inr (), s\<lparr>wintypes := True\<rparr>))"

text \<open>An access to \<^verbatim>\<open>ctypes.wintypes.X\<close> after a plain \<^verbatim>\<open>import ctypes\<close>.\<close>

definition use_wintypes :: "(unit, 'w state) py" where
  "use_wintypes = (\<lambda>s. if wintypes s then (Inr (), s) else (Inl AttributeError, s))"

text \<open>\<^verbatim>\<open>type(filename) is str and str is not bytes\<close>\<close>

fun is_text :: "pyobj \<Rightarrow> bool" where
  "is_text (PyStr t) = True"
| "is_text v = False"

fun is_bytes :: "pyobj \<Rightarrow> bool" where
  "is_bytes (PyBytes b) = True"
| "is_bytes v = False"

definition wide_filename :: "'w platform \<Rightarrow> pyobj \<Rightarrow> bool" where
  "wide_filename p filename =
     ((if py3 p then is_text filename else is_bytes filename) \<and> py3 p)"

text \<open>
  A function with local variables runs in a frame beside the state: \<open>in_frame\<close> runs a
  statement that does not touch the locals, \<open>with_frame\<close> enters the function body.
\<close>

definition in_frame :: "('a, 's) py \<Rightarrow> ('a, 'f \<times> 's) py" where
  "in_frame m = (\<lambda>(fr, s). case m s of (r, s') \<Rightarrow> (r, (fr, s')))"

definition with_frame :: "'f \<Rightarrow> ('a, 'f \<times> 's) py \<Rightarrow> ('a, 's) py" where
  "with_frame fr m = (\<lambda>s. case m (fr, s) of (r, (fr', s')) \<Rightarrow> (r, s'))"

section \<open>Resource kinds\<close>

definition RT_MANIFEST :: int where "RT_MANIFEST = 24"
definition RT_RCDATA :: int where "RT_RCDATA = 10"
definition RT_GROUP_ICON :: int where "RT_GROUP_ICON = 14"
definition RT_ICON :: int where "RT_ICON = 3"

section \<open>getResourcesFromDLL\<close>

definition DONT_RESOLVE_DLL_REFERENCES :: int where "DONT_RESOLVE_DLL_REFERENCES = 1"
definition LOAD_LIBRARY_AS_DATAFILE :: int where "LOAD_LIBRARY_AS_DATAFILE = 2"
definition LOAD_LIBRARY_AS_IMAGE_RESOURCE :: int where "LOAD_LIBRARY_AS_IMAGE_RESOURCE = 32"

text \<open>\<^verbatim>\<open>result.append(x)\<close> on the local list \<^verbatim>\<open>result\<close> of the enclosing function.\<close>

definition result_append :: "pyobj \<Rightarrow> (unit, pyobj list \<times> 's) py" where
  "result_append x = (\<lambda>(result, s). (Inr (), (result @ [x], s)))"

text \<open>
  The nested function \<^verbatim>\<open>callback(hModule, lpType, lpName, _lParam)\<close>.  The three
  calls that find, measure and load the resource stand before the \<^verbatim>\<open>try\<close>; locking
  and copying stand inside it, and \<^verbatim>\<open>FreeResource(hData)\<close> is its \<^verbatim>\<open>finally\<close>.
\<close>

definition callback ::
  "'w platform \<Rightarrow> bool \<Rightarrow> pyobj \<Rightarrow> pyobj \<Rightarrow> pyobj \<Rightarrow> pyobj \<Rightarrow> (bool, pyobj list \<times> 'w state) py"
where
  "callback p with_data hModule lpType lpName lParam =
     (if with_data then
        then_py (in_frame (call p FindResourceA [hModule, lpName, lpType])) (\<lambda>hResource.
        then_py (in_frame (call p SizeofResource [hModule, hResource])) (\<lambda>size.
        then_py (in_frame (call p LoadResource [hModule, hResource])) (\<lambda>hData.
        then_py
          (try_finally
             (then_py (in_frame (call p LockResource [hData])) (\<lambda>ptr.
              then_py (in_frame (\<lambda>s. (from_ffi (string_at p ptr size (world s)), s))) (\<lambda>data.
              result_append (PyTuple [lpType, lpName, data]))))
             (in_frame (call p FreeResource [hData])))
          (\<lambda>_. ret_py True))))
      else
        then_py (result_append lpName) (\<lambda>_. ret_py True))"

text \<open>
  Modelled from the spec: the enumeration of the operating system, which is outside the
  repository (``the OS invokes a caller-supplied callback once per matching resource'').
  The callback is called on each entry in turn; a callback that returns false ends the
  enumeration; an error raised by the callback is treated as \<open>callback_raised\<close> says.
\<close>

fun run_callbacks ::
  "cb_outcome \<Rightarrow> (pyobj \<Rightarrow> pyobj \<Rightarrow> pyobj \<Rightarrow> pyobj \<Rightarrow> (bool, 's) py) \<Rightarrow> pyobj \<Rightarrow>
     (pyobj \<times> pyobj \<times> pyobj) list \<Rightarrow> (unit, 's) py"
where
  "run_callbacks pol cb lParam [] = (\<lambda>s. (Inr (), s))"
| "run_callbacks pol cb lParam ((hModule, lpType, lpName) # es) =
     (\<lambda>s. case cb hModule lpType lpName lParam s of
        (Inr go, s') \<Rightarrow>
          if go then run_callbacks pol cb lParam es s' else (Inr (), s')
      | (Inl e, s') \<Rightarrow>
          (case pol of
             Propagate \<Rightarrow> (Inl e, s')
           | Ignore go \<Rightarrow>
               if go then run_callbacks pol cb lParam es s' else (Inr (), s')))"

text \<open>
  The call \<^verbatim>\<open>EnumResourceNames(hmodule, resource_kind, cb, None)\<close>, always through
  the entry point \<^verbatim>\<open>EnumResourceNamesA\<close> (line 56).  Its result is not used.
\<close>

definition EnumResourceNames ::
  "'w platform \<Rightarrow> pyobj \<Rightarrow> pyobj \<Rightarrow>
     (pyobj \<Rightarrow> pyobj \<Rightarrow> pyobj \<Rightarrow> pyobj \<Rightarrow> (bool, 'f \<times> 'w state) py) \<Rightarrow> pyobj \<Rightarrow>
     (unit, 'f \<times> 'w state) py"
where
  "EnumResourceNames p hmodule resource_kind cb lParam =
     (\<lambda>(fr, s).
        let args = [hmodule, resource_kind, lParam];
            s1 = s\<lparr>trace := trace s @ [(EnumResourceNamesA, args)]\<rparr>
        in case enum_entries p args (world s1) of
             Inl e \<Rightarrow> (Inl (Foreign e), (fr, s1))
           | Inr entries \<Rightarrow> run_callbacks (callback_raised p) cb lParam entries (fr, s1))"

definition getResourcesFromDLL ::
  "'w platform \<Rightarrow> pyobj \<Rightarrow> pyobj \<Rightarrow> bool \<Rightarrow> (pyobj list, 'w state) py"
where
  "getResourcesFromDLL p filename resource_kind with_data =
     then_py import_wintypes (\<lambda>_.
     then_py
       (call p (if wide_filename p filename then LoadLibraryExW else LoadLibraryExA)
          [filename, PyInt 0,
           PyInt (or (or DONT_RESOLVE_DLL_REFERENCES LOAD_LIBRARY_AS_DATAFILE)
                  LOAD_LIBRARY_AS_IMAGE_RESOURCE)])
       (\<lambda>hmodule.
     if hmodule = PyInt 0 then raise_py WinError
     else
       with_frame []
         (then_py (EnumResourceNames p hmodule resource_kind (callback p with_data) PyNone) (\<lambda>_.
          then_py (in_frame (call p FreeLibrary [hmodule])) (\<lambda>_.
          (\<lambda>(result, s). (Inr result, (result, s))))))))"

section \<open>The update session\<close>

text \<open>
  \<^verbatim>\<open>_openFileWindowsResources\<close>, \<^verbatim>\<open>_closeFileWindowsResources\<close> and
  \<^verbatim>\<open>_updateResource\<close> (an Isabelle name cannot start with an underscore).  Python's
  \<^verbatim>\<open>False\<close> reaches a foreign function as the integer 0.
\<close>

definition openFileWindowsResources :: "'w platform \<Rightarrow> pyobj \<Rightarrow> (pyobj, 'w state) py" where
  "openFileWindowsResources p filename =
     then_py use_wintypes (\<lambda>_.
     then_py
       (call p (if wide_filename p filename then BeginUpdateResourceW else BeginUpdateResourceA)
          [filename, PyInt 0])
       (\<lambda>update_handle.
     if \<not> truthy update_handle then raise_py WinError
     else ret_py update_handle))"

definition closeFileWindowsResources :: "'w platform \<Rightarrow> pyobj \<Rightarrow> (pyobj, 'w state) py" where
  "closeFileWindowsResources p update_handle =
     then_py use_wintypes (\<lambda>_.
     then_py (call p EndUpdateResourceA [update_handle, PyInt 0]) (\<lambda>ret.
     if \<not> truthy ret then raise_py WinError
     else ret_py PyNone))"

text \<open>
  The parameter \<open>lang\<close> is not used: the fourth argument of the call is the literal 0.
  The function has no \<^verbatim>\<open>return\<close> statement: where it does not raise, its value is
  \<^verbatim>\<open>None\<close>.
\<close>

definition updateResource ::
  "'w platform \<Rightarrow> pyobj \<Rightarrow> pyobj \<Rightarrow> pyobj \<Rightarrow> pyobj \<Rightarrow> pyobj \<Rightarrow> (pyobj, 'w state) py"
where
  "updateResource p update_handle resource_kind res_name lang data =
     then_py (\<lambda>s. ((if data = PyNone then Inr 0 else py_len data), s)) (\<lambda>size.
     then_py use_wintypes (\<lambda>_.
     then_py
       (call p UpdateResourceA [update_handle, resource_kind, res_name, PyInt 0, data, PyInt size])
       (\<lambda>ret.
     if \<not> truthy ret then raise_py WinError
     else ret_py PyNone)))"

section \<open>The composed operations\<close>

text \<open>The \<^verbatim>\<open>for\<close> loop of \<^verbatim>\<open>deleteWindowsResources\<close> (lines 177 to 181).\<close>

fun delete_loop :: "'w platform \<Rightarrow> pyobj \<Rightarrow> pyobj \<Rightarrow> pyobj list \<Rightarrow> (unit, 'w state) py" where
  "delete_loop p update_handle resource_kind [] = ret_py ()"
| "delete_loop p update_handle resource_kind (res_name # rest) =
     then_py (updateResource p update_handle resource_kind res_name (PyInt 0) PyNone) (\<lambda>ret.
     if \<not> truthy ret then raise_py WinError
     else delete_loop p update_handle resource_kind rest)"

definition deleteWindowsResources ::
  "'w platform \<Rightarrow> pyobj \<Rightarrow> pyobj \<Rightarrow> pyobj list \<Rightarrow> (pyobj, 'w state) py"
where
  "deleteWindowsResources p filename resource_kind res_names =
     then_py (openFileWindowsResources p filename) (\<lambda>update_handle.
     then_py (delete_loop p update_handle resource_kind res_names) (\<lambda>_.
     closeFileWindowsResources p update_handle))"

text \<open>
  Unpacking \<^verbatim>\<open>kind, res_name, data = x\<close>: a sequence of three elements, a
  \<^verbatim>\<open>ValueError\<close> for a sequence of another length, a \<^verbatim>\<open>TypeError\<close> otherwise.
  Iterating over bytes gives integers in Python 3 and strings of one byte in Python 2.
\<close>

definition unpack3 :: "bool \<Rightarrow> pyobj \<Rightarrow> error + pyobj \<times> pyobj \<times> pyobj" where
  "unpack3 v3 x =
     (case x of
        PyTuple xs \<Rightarrow>
          (case xs of [a, b, c] \<Rightarrow> Inr (a, b, c) | _ \<Rightarrow> Inl ValueError)
      | PyBytes bs \<Rightarrow>
          (case bs of
             [a, b, c] \<Rightarrow>
               if v3 then Inr (PyInt (of_char a), PyInt (of_char b), PyInt (of_char c))
               else Inr (PyBytes [a], PyBytes [b], PyBytes [c])
           | _ \<Rightarrow> Inl ValueError)
      | PyStr t \<Rightarrow>
          (case t of [a, b, c] \<Rightarrow> Inr (PyStr [a], PyStr [b], PyStr [c]) | _ \<Rightarrow> Inl ValueError)
      | _ \<Rightarrow> Inl TypeError)"

text \<open>
  The \<^verbatim>\<open>for kind, res_name, data in res_data\<close> loop of
  \<^verbatim>\<open>copyResourcesFromFileToFile\<close> (lines 192 to 195).
\<close>

fun copy_loop :: "'w platform \<Rightarrow> pyobj \<Rightarrow> pyobj \<Rightarrow> pyobj list \<Rightarrow> (unit, 'w state) py" where
  "copy_loop p update_handle resource_kind [] = ret_py ()"
| "copy_loop p update_handle resource_kind (x # rest) =
     (case unpack3 (py3 p) x of
        Inl e \<Rightarrow> raise_py e
      | Inr (kind, res_name, data) \<Rightarrow>
          if kind \<noteq> resource_kind then raise_py AssertionError
          else
            then_py (updateResource p update_handle resource_kind res_name (PyInt 0) data) (\<lambda>_.
            copy_loop p update_handle resource_kind rest))"

definition copyResourcesFromFileToFile ::
  "'w platform \<Rightarrow> pyobj \<Rightarrow> pyobj \<Rightarrow> pyobj \<Rightarrow> (pyobj, 'w state) py"
where
  "copyResourcesFromFileToFile p source_filename target_filename resource_kind =
     then_py (getResourcesFromDLL p source_filename resource_kind True) (\<lambda>res_data.
     if res_data \<noteq> [] then
       then_py (openFileWindowsResources p target_filename) (\<lambda>update_handle.
       then_py (copy_loop p update_handle resource_kind res_data) (\<lambda>_.
       closeFileWindowsResources p update_handle))
     else ret_py PyNone)"

definition addResourceToFile ::
  "'w platform \<Rightarrow> pyobj \<Rightarrow> pyobj \<Rightarrow> pyobj \<Rightarrow> pyobj \<Rightarrow> (pyobj, 'w state) py"
where
  "addResourceToFile p target_filename data resource_kind res_name =
     then_py (openFileWindowsResources p target_filename) (\<lambda>update_handle.
     then_py (updateResource p update_handle resource_kind res_name (PyInt 0) data) (\<lambda>_.
     closeFileWindowsResources p update_handle))"

section \<open>A reference system\<close>

text \<open>
  Modelled from the spec: the resource subsystem of the operating system (sections 4
  and 6 of the specification), which the module calls and which is outside the
  repository.  A file holds a resource directory, an ordered list of entries
  \<open>((kind, name), bytes)\<close>; a kind or a name is a small integer or a text.  Loading a
  file maps its directory under a fresh handle; an update session collects staged
  operations and applies them to the file when it is committed.
\<close>

type_synonym resdir = "((pyobj \<times> pyobj) \<times> string) list"

record ref_world =
  files :: "string \<rightharpoonup> resdir"
  locked :: "string set"
  modules :: "int \<rightharpoonup> resdir"
  sessions :: "int \<rightharpoonup> string \<times> ((pyobj \<times> pyobj) \<times> pyobj) list"
  blocks :: "int \<rightharpoonup> string"
  next_handle :: nat

definition fresh :: "ref_world \<Rightarrow> int" where
  "fresh w = int (Suc (next_handle w))"

definition bump :: "ref_world \<Rightarrow> ref_world" where
  "bump w = w\<lparr>next_handle := Suc (next_handle w)\<rparr>"

text \<open>
  What ctypes does to arguments and results, as the module declares them.  \<open>c_int n\<close>
  is the value of a C \<^verbatim>\<open>int\<close> that holds the low 32 bits of \<open>n\<close>.
\<close>

definition c_int :: "int \<Rightarrow> int" where
  "c_int n = (n + 2 ^ 31) mod 2 ^ 32 - 2 ^ 31"

text \<open>
  An argument of a function that has no \<^verbatim>\<open>argtypes\<close>: an integer has to fit a C
  \<^verbatim>\<open>long\<close> or \<^verbatim>\<open>unsigned long\<close> (32 bits on Windows) and is passed as a C
  \<^verbatim>\<open>int\<close>; a tuple cannot be passed.
\<close>

fun convertible :: "pyobj \<Rightarrow> bool" where
  "convertible (PyInt n) = (- (2 ^ 31) \<le> n \<and> n < 2 ^ 32)"
| "convertible (PyTuple xs) = False"
| "convertible v = True"

fun passed :: "pyobj \<Rightarrow> pyobj" where
  "passed (PyInt n) = PyInt (c_int n)"
| "passed v = v"

text \<open>
  An argument declared in \<^verbatim>\<open>argtypes\<close>: an integer is cut to the width of the type
  with no check, a pointer (\<^verbatim>\<open>HANDLE\<close>, \<^verbatim>\<open>LPVOID\<close>) being 64 bits wide; a pointer
  also takes \<^verbatim>\<open>None\<close>, bytes and text, an integer type takes integers only.
\<close>

fun as_pointer :: "pyobj \<Rightarrow> pyobj option" where
  "as_pointer (PyInt n) = Some (PyInt (n mod 2 ^ 64))"
| "as_pointer (PyTuple xs) = None"
| "as_pointer v = Some v"

fun as_unsigned :: "nat \<Rightarrow> pyobj \<Rightarrow> pyobj option" where
  "as_unsigned b (PyInt n) = Some (PyInt (n mod 2 ^ b))"
| "as_unsigned b v = None"

fun as_signed :: "pyobj \<Rightarrow> pyobj option" where
  "as_signed (PyInt n) = Some (PyInt (c_int n))"
| "as_signed v = None"

definition with_argtypes :: "(pyobj \<Rightarrow> pyobj option) list \<Rightarrow> pyobj list \<Rightarrow> pyobj list option" where
  "with_argtypes ts args =
     (if length ts = length args then those (map (\<lambda>(t, a). t a) (zip ts args)) else None)"

text \<open>
  \<^verbatim>\<open>_updateResource\<close> sets the \<^verbatim>\<open>argtypes\<close> of \<^verbatim>\<open>UpdateResourceA\<close> (lines 157 to
  164) and \<^verbatim>\<open>_closeFileWindowsResources\<close> those of \<^verbatim>\<open>EndUpdateResourceA\<close> (lines
  135 to 138), each right before its call; no other function has any.
\<close>

definition converted :: "entry_point \<Rightarrow> pyobj list \<Rightarrow> pyobj list option" where
  "converted f args =
     (if f = UpdateResourceA then
        with_argtypes
          [as_pointer, as_pointer, as_pointer, as_unsigned 16, as_pointer, as_unsigned 32] args
      else if f = EndUpdateResourceA then with_argtypes [as_pointer, as_signed] args
      else if list_all convertible args then Some (map passed args)
      else None)"

text \<open>
  A result: a C \<^verbatim>\<open>int\<close> where no \<^verbatim>\<open>restype\<close> is set; \<^verbatim>\<open>_openFileWindowsResources\<close>
  sets \<^verbatim>\<open>HANDLE\<close> on the function that opens the session (line 123), which gives the
  whole pointer, and \<^verbatim>\<open>None\<close> for a null one.
\<close>

definition handle_of :: "int \<Rightarrow> pyobj" where
  "handle_of n = (if n mod 2 ^ 64 = 0 then PyNone else PyInt (n mod 2 ^ 64))"

definition returned :: "entry_point \<Rightarrow> pyobj \<Rightarrow> pyobj" where
  "returned f v =
     (case v of
        PyInt n \<Rightarrow>
          if f = BeginUpdateResourceA \<or> f = BeginUpdateResourceW then handle_of n
          else PyInt (c_int n)
      | _ \<Rightarrow> v)"

text \<open>A kind or name the system stores: an integer below 65536 or a text.\<close>

fun res_id :: "pyobj \<Rightarrow> bool" where
  "res_id (PyInt n) = (0 \<le> n \<and> n < 65536)"
| "res_id (PyBytes t) = True"
| "res_id v = False"

text \<open>
  The callback receives the type and the name as \<^verbatim>\<open>LONG\<close> (lines 59 to 65), 32 bits:
  a text as its address in the mapped file, where the type of entry \<open>i\<close> stands at
  \<open>65536 + 2 i\<close> and its name at \<open>65536 + 2 i + 1\<close>, an integer as it is.  \<open>resolve\<close>
  reads such an argument back.
\<close>

definition as_long :: "nat \<Rightarrow> pyobj \<Rightarrow> pyobj" where
  "as_long off v =
     (case v of PyInt n \<Rightarrow> PyInt (c_int n) | _ \<Rightarrow> PyInt (c_int (65536 + int off)))"

definition resolve :: "resdir \<Rightarrow> pyobj \<Rightarrow> pyobj option" where
  "resolve dir v =
     (case v of
        PyInt n \<Rightarrow>
          if 0 \<le> n \<and> n < 65536 then Some (PyInt n)
          else if 65536 \<le> n \<and> nat (n - 65536) div 2 < length dir then
            (let e = fst (dir ! (nat (n - 65536) div 2))
             in Some (if even (nat (n - 65536)) then fst e else snd e))
          else None
      | PyBytes t \<Rightarrow> Some (PyBytes t)
      | _ \<Rightarrow> None)"

fun index_of :: "('k \<times> 'v) list \<Rightarrow> 'k \<Rightarrow> nat option" where
  "index_of [] k = None"
| "index_of (e # es) k =
     (if fst e = k then Some 0 else map_option Suc (index_of es k))"

text \<open>
  The entries the enumeration of a mapped directory passes to the callback; the module
  handle reaches it as \<^verbatim>\<open>HMODULE\<close>, the whole pointer.
\<close>

fun entries_from :: "nat \<Rightarrow> int \<Rightarrow> pyobj \<Rightarrow> resdir \<Rightarrow> (pyobj \<times> pyobj \<times> pyobj) list" where
  "entries_from i h kind [] = []"
| "entries_from i h kind (((k, nm), d) # es) =
     (if k = kind then [(handle_of h, as_long (2 * i) k, as_long (2 * i + 1) nm)] else [])
     @ entries_from (Suc i) h kind es"

definition ref_enum_entries ::
  "pyobj list \<Rightarrow> ref_world \<Rightarrow> ffi_error + (pyobj \<times> pyobj \<times> pyobj) list"
where
  "ref_enum_entries args w =
     (if \<not> list_all convertible args then Inl ArgumentError
      else
        case map passed args of
          [PyInt h, kind, lParam] \<Rightarrow>
            (case modules w h of
               None \<Rightarrow> Inr []
             | Some dir \<Rightarrow> Inr (entries_from 0 h kind dir))
        | _ \<Rightarrow> Inr [])"

text \<open>The descriptor of the entry at index \<open>i\<close> is \<open>i + 1\<close>; 0 is no descriptor.\<close>

definition entry_at :: "ref_world \<Rightarrow> int \<Rightarrow> int \<Rightarrow> string option" where
  "entry_at w h r =
     (case modules w h of
        None \<Rightarrow> None
      | Some dir \<Rightarrow>
          if 0 < r \<and> nat r \<le> length dir then Some (snd (dir ! (nat r - 1))) else None)"

definition find_resource :: "ref_world \<Rightarrow> int \<Rightarrow> pyobj \<Rightarrow> pyobj \<Rightarrow> int" where
  "find_resource w h lpName lpType =
     (case modules w h of
        None \<Rightarrow> 0
      | Some dir \<Rightarrow>
          (case (resolve dir lpType, resolve dir lpName) of
             (Some k, Some nm) \<Rightarrow>
               (case index_of dir (k, nm) of None \<Rightarrow> 0 | Some i \<Rightarrow> int i + 1)
           | _ \<Rightarrow> 0))"

text \<open>
  A staged operation on a directory: bytes replace the entry of that key, or are added
  at the end when there is none; no bytes delete the entry.
\<close>

definition stage_apply :: "resdir \<Rightarrow> (pyobj \<times> pyobj) \<times> pyobj \<Rightarrow> resdir" where
  "stage_apply dir op =
     (case snd op of
        PyBytes d \<Rightarrow>
          if fst op \<in> fst ` set dir
          then map (\<lambda>e. if fst e = fst op then (fst op, d) else e) dir
          else dir @ [(fst op, d)]
      | _ \<Rightarrow> filter (\<lambda>e. fst e \<noteq> fst op) dir)"

definition ref_load :: "string option \<Rightarrow> ref_world \<Rightarrow> pyobj \<times> ref_world" where
  "ref_load path w =
     (case path of
        None \<Rightarrow> (PyInt 0, w)
      | Some f \<Rightarrow>
          (case files w f of
             None \<Rightarrow> (PyInt 0, w)
           | Some dir \<Rightarrow>
               (PyInt (fresh w), bump (w\<lparr>modules := (modules w)(fresh w \<mapsto> dir)\<rparr>))))"

text \<open>
  Opening a session fails (a null handle) on a file that does not exist or that another
  session holds.  With the second argument
  not 0 the session starts by deleting the resources the file has.
\<close>

definition ref_begin :: "string option \<Rightarrow> pyobj \<Rightarrow> ref_world \<Rightarrow> pyobj \<times> ref_world" where
  "ref_begin path del w =
     (case path of
        None \<Rightarrow> (PyInt 0, w)
      | Some f \<Rightarrow>
          (case files w f of
             None \<Rightarrow> (PyInt 0, w)
           | Some dir \<Rightarrow>
               if f \<in> locked w then (PyInt 0, w)
               else
                 (PyInt (fresh w),
                  bump (w\<lparr>locked := insert f (locked w),
                          sessions := (sessions w)(fresh w \<mapsto>
                            (f, if del = PyInt 0 then [] else map (\<lambda>e. (fst e, PyNone)) dir))\<rparr>))))"

definition ref_update ::
  "int \<Rightarrow> pyobj \<Rightarrow> pyobj \<Rightarrow> pyobj \<Rightarrow> int \<Rightarrow> ref_world \<Rightarrow> pyobj \<times> ref_world"
where
  "ref_update h kind name data cb w =
     (case sessions w h of
        None \<Rightarrow> (PyInt 0, w)
      | Some (f, ops) \<Rightarrow>
          if \<not> (res_id kind \<and> res_id name) then (PyInt 0, w)
          else
            (case data of
               PyNone \<Rightarrow>
                 if cb = 0
                 then (PyInt 1, w\<lparr>sessions := (sessions w)(h \<mapsto> (f, ops @ [((kind, name), PyNone)]))\<rparr>)
                 else (PyInt 0, w)
             | PyBytes d \<Rightarrow>
                 if 0 \<le> cb \<and> nat cb \<le> length d
                 then (PyInt 1, w\<lparr>sessions := (sessions w)(h \<mapsto>
                         (f, ops @ [((kind, name), PyBytes (take (nat cb) d))]))\<rparr>)
                 else (PyInt 0, w)
             | _ \<Rightarrow> (PyInt 0, w)))"

definition ref_end :: "int \<Rightarrow> pyobj \<Rightarrow> ref_world \<Rightarrow> pyobj \<times> ref_world" where
  "ref_end h discard w =
     (case sessions w h of
        None \<Rightarrow> (PyInt 0, w)
      | Some (f, ops) \<Rightarrow>
          (case files w f of
             None \<Rightarrow> (PyInt 0, w)
           | Some dir \<Rightarrow>
               (PyInt 1,
                w\<lparr>files := (files w)(f \<mapsto> (if discard = PyInt 0 then foldl stage_apply dir ops else dir)),
                  locked := locked w - {f},
                  sessions := (sessions w)(h := None)\<rparr>)))"

definition narrow_path :: "pyobj \<Rightarrow> string option" where
  "narrow_path v = (case v of PyBytes b \<Rightarrow> Some b | _ \<Rightarrow> None)"

definition wide_path :: "pyobj \<Rightarrow> string option" where
  "wide_path v = (case v of PyStr t \<Rightarrow> Some t | _ \<Rightarrow> None)"

definition ref_call :: "entry_point \<Rightarrow> pyobj list \<Rightarrow> ref_world \<Rightarrow> pyobj \<times> ref_world" where
  "ref_call f args w =
     (case (f, args) of
        (LoadLibraryExA, [filename, PyInt file, PyInt flags]) \<Rightarrow> ref_load (narrow_path filename) w
      | (LoadLibraryExW, [filename, PyInt file, PyInt flags]) \<Rightarrow> ref_load (wide_path filename) w
      | (FreeLibrary, [PyInt h]) \<Rightarrow>
          (case modules w h of
             None \<Rightarrow> (PyInt 0, w)
           | Some dir \<Rightarrow> (PyInt 1, w\<lparr>modules := (modules w)(h := None)\<rparr>))
      | (FindResourceA, [PyInt h, lpName, lpType]) \<Rightarrow> (PyInt (find_resource w h lpName lpType), w)
      | (SizeofResource, [PyInt h, PyInt r]) \<Rightarrow>
          (case entry_at w h r of
             None \<Rightarrow> (PyInt 0, w)
           | Some d \<Rightarrow> (PyInt (int (length d)), w))
      | (LoadResource, [PyInt h, PyInt r]) \<Rightarrow>
          (case entry_at w h r of
             None \<Rightarrow> (PyInt 0, w)
           | Some d \<Rightarrow> (PyInt (fresh w), bump (w\<lparr>blocks := (blocks w)(fresh w \<mapsto> d)\<rparr>)))
      | (LockResource, [PyInt a]) \<Rightarrow>
          (case blocks w a of None \<Rightarrow> (PyInt 0, w) | Some d \<Rightarrow> (PyInt a, w))
      | (FreeResource, [PyInt a]) \<Rightarrow> (PyInt 0, w\<lparr>blocks := (blocks w)(a := None)\<rparr>)
      | (BeginUpdateResourceA, [filename, del]) \<Rightarrow> ref_begin (narrow_path filename) del w
      | (BeginUpdateResourceW, [filename, del]) \<Rightarrow> ref_begin (wide_path filename) del w
      | (UpdateResourceA, [PyInt h, kind, name, PyInt lang, data, PyInt cb]) \<Rightarrow>
          ref_update h kind name data cb w
      | (EndUpdateResourceA, [PyInt h, discard]) \<Rightarrow> ref_end h discard w
      | _ \<Rightarrow> (PyInt 0, w))"

definition ref_foreign ::
  "entry_point \<Rightarrow> pyobj list \<Rightarrow> ref_world \<Rightarrow> (ffi_error + pyobj) \<times> ref_world"
where
  "ref_foreign f args w =
     (case converted f args of
        None \<Rightarrow> (Inl ArgumentError, w)
      | Some cargs \<Rightarrow> (case ref_call f cargs w of (v, w') \<Rightarrow> (Inr (returned f v), w')))"

text \<open>
  \<^verbatim>\<open>ctypes.string_at(ptr, size)\<close>: the first \<open>len\<close> bytes of the block at \<open>ptr\<close>;
  no byte is read when \<open>len\<close> is 0; the size -1 asks for the bytes before the first
  zero byte, another negative size is refused; a read outside a block is an access
  violation.
\<close>

definition ref_string_at :: "pyobj \<Rightarrow> pyobj \<Rightarrow> ref_world \<Rightarrow> ffi_error + pyobj" where
  "ref_string_at ptr len w =
     (case (ptr, len) of
        (PyInt a, PyInt n) \<Rightarrow>
          if n = 0 then Inr (PyBytes [])
          else if n < - 1 then Inl SystemError
          else
            (case blocks w (a mod 2 ^ 64) of
               None \<Rightarrow> Inl AccessViolation
             | Some d \<Rightarrow>
                 if n = - 1 then
                   (if CHR 0x00 \<in> set d then Inr (PyBytes (takeWhile (\<lambda>c. c \<noteq> CHR 0x00) d))
                    else Inl AccessViolation)
                 else if nat n \<le> length d then Inr (PyBytes (take (nat n) d))
                 else Inl AccessViolation)
      | _ \<Rightarrow> Inl ArgumentError)"

definition ref_platform :: "ref_world platform" where
  "ref_platform =
     \<lparr>py3 = True, foreign = ref_foreign, enum_entries = ref_enum_entries,
      callback_raised = Ignore False, string_at = ref_string_at\<rparr>"

text \<open>A system with the single file \<open>f\<close>, holding the directory \<open>dir\<close>.\<close>

definition one_file :: "string \<Rightarrow> resdir \<Rightarrow> ref_world state" where
  "one_file f dir =
     \<lparr>world = \<lparr>files = [f \<mapsto> dir], locked = {}, modules = Map.empty, sessions = Map.empty,
               blocks = Map.empty, next_handle = 0\<rparr>,
      trace = [], wintypes = True\<rparr>"

text \<open>The same system after it has handed out \<open>n\<close> handles.\<close>

definition one_file_at :: "nat \<Rightarrow> string \<Rightarrow> resdir \<Rightarrow> ref_world state" where
  "one_file_at n f dir =
     \<lparr>world = \<lparr>files = [f \<mapsto> dir], locked = {}, modules = Map.empty, sessions = Map.empty,
               blocks = Map.empty, next_handle = n\<rparr>,
      trace = [], wintypes = True\<rparr>"

text \<open>
  What the system yields for the arguments the callback passes on: the bytes of the first
  entry with the kind and name they stand for, no bytes when there is none.
\<close>

definition extracted :: "resdir \<Rightarrow> pyobj \<Rightarrow> pyobj \<Rightarrow> string" where
  "extracted dir lpName lpType =
     (case (resolve dir lpType, resolve dir lpName) of
        (Some k, Some nm) \<Rightarrow>
          (case index_of dir (k, nm) of None \<Rightarrow> [] | Some i \<Rightarrow> snd (dir ! i))
      | _ \<Rightarrow> [])"

text \<open>The record the callback appends for an entry, on this system.\<close>

definition record_of :: "resdir \<Rightarrow> pyobj \<times> pyobj \<times> pyobj \<Rightarrow> pyobj" where
  "record_of dir e = PyTuple [fst (snd e), snd (snd e), PyBytes (extracted dir (snd (snd e)) (fst (snd e)))]"

text \<open>
  A system on which nothing is lost in a C \<^verbatim>\<open>int\<close>: the resources of the file are
  shorter than \<open>2\<^sup>3\<^sup>1\<close> bytes, and the handles and addresses the system will hand out
  stay below \<open>2\<^sup>3\<^sup>1\<close>.
\<close>

definition wf_dir :: "resdir \<Rightarrow> bool" where
  "wf_dir dir = list_all (\<lambda>e. int (length (snd e)) < 2 ^ 31) dir"

definition path_of :: "pyobj \<Rightarrow> string option" where
  "path_of v = (case v of PyBytes b \<Rightarrow> Some b | PyStr t \<Rightarrow> Some t | _ \<Rightarrow> None)"

definition within_c_int :: "ref_world \<Rightarrow> pyobj \<Rightarrow> bool" where
  "within_c_int w target =
     (case path_of target of
        None \<Rightarrow> False
      | Some f \<Rightarrow>
          (case files w f of
             None \<Rightarrow> False
           | Some dir \<Rightarrow>
               wf_dir dir \<and> int (next_handle w) + 2 * int (length dir) + 65544 < 2 ^ 31))"

section \<open>Observing the calls\<close>

text \<open>The calls a computation makes when it is run from the state \<open>s\<close>.\<close>

definition calls_of :: "('a, 'w state) py \<Rightarrow> 'w state \<Rightarrow> call list" where
  "calls_of m s = drop (length (trace s)) (trace (snd (m s)))"

text \<open>
  \<open>emits tr E m\<close>: whatever the state, \<open>m\<close> only adds calls to the trace, and only
  calls of the entry points in \<open>E\<close>.
\<close>

definition emits :: "('s \<Rightarrow> call list) \<Rightarrow> entry_point set \<Rightarrow> ('a, 's) py \<Rightarrow> bool" where
  "emits tr E m = (\<forall>s. \<exists>new. tr (snd (m s)) = tr s @ new \<and> fst ` set new \<subseteq> E)"

definition session_entry_points :: "entry_point set" where
  "session_entry_points =
     {BeginUpdateResourceA, BeginUpdateResourceW, UpdateResourceA, EndUpdateResourceA}"

definition library_entry_points :: "entry_point set" where
  "library_entry_points =
     {LoadLibraryExA, LoadLibraryExW, EnumResourceNamesA, FindResourceA, SizeofResource,
      LoadResource, LockResource, FreeResource, FreeLibrary}"




section \<open>Basic facts\<close>

lemmas py_defs = then_py_def ret_py_def raise_py_def try_finally_def in_frame_def with_frame_def
  call_def from_ffi_def use_wintypes_def import_wintypes_def result_append_def

lemma emitsI: "(\<And>s. \<exists>new. tr (snd (m s)) = tr s @ new \<and> fst ` set new \<subseteq> E) \<Longrightarrow> emits tr E m"
  by (simp add: emits_def)

lemma emitsD: "emits tr E m \<Longrightarrow> \<exists>new. tr (snd (m s)) = tr s @ new \<and> fst ` set new \<subseteq> E"
  by (simp add: emits_def)

lemma emits_ret: "emits tr E (ret_py v)"
  by (simp add: emits_def ret_py_def)

lemma emits_raise: "emits tr E (raise_py e)"
  by (simp add: emits_def raise_py_def)

lemma emits_pure: "emits tr E (\<lambda>s. (g s, s))"
  by (simp add: emits_def)

lemma emits_then:
  assumes m: "emits tr E m" and f: "\<And>v. emits tr E (f v)"
  shows "emits tr E (then_py m f)"
proof (rule emitsI)
  fix s
  obtain r s1 where ms: "m s = (r, s1)" by (cases "m s")
  from emitsD[OF m, of s] ms obtain n1 where n1: "tr s1 = tr s @ n1" "fst ` set n1 \<subseteq> E"
    by auto
  show "\<exists>new. tr (snd (then_py m f s)) = tr s @ new \<and> fst ` set new \<subseteq> E"
  proof (cases r)
    case (Inl e)
    with ms n1 show ?thesis by (auto simp: then_py_def)
  next
    case (Inr v)
    from emitsD[OF f, of v s1] obtain n2 where "tr (snd (f v s1)) = tr s1 @ n2" "fst ` set n2 \<subseteq> E"
      by auto
    with ms n1 Inr show ?thesis
      by (intro exI[of _ "n1 @ n2"]) (auto simp: then_py_def)
  qed
qed

lemma emits_try_finally:
  assumes m: "emits tr E body" and f: "emits tr E fin"
  shows "emits tr E (try_finally body fin)"
proof (rule emitsI)
  fix s
  obtain r s1 where ms: "body s = (r, s1)" by (cases "body s")
  from emitsD[OF m, of s] ms obtain n1 where n1: "tr s1 = tr s @ n1" "fst ` set n1 \<subseteq> E"
    by auto
  obtain r2 s2 where fs: "fin s1 = (r2, s2)" by (cases "fin s1")
  from emitsD[OF f, of s1] fs obtain n2 where n2: "tr s2 = tr s1 @ n2" "fst ` set n2 \<subseteq> E"
    by auto
  from ms fs n1 n2 show "\<exists>new. tr (snd (try_finally body fin s)) = tr s @ new \<and> fst ` set new \<subseteq> E"
    by (intro exI[of _ "n1 @ n2"]) (auto simp: try_finally_def split: sum.splits)
qed

lemma emits_call: "f \<in> E \<Longrightarrow> emits trace E (call p f args)"
  by (rule emitsI) (simp add: call_def split: prod.splits)

lemma emits_use_wintypes: "emits trace E use_wintypes"
  by (simp add: emits_def use_wintypes_def)

lemma emits_import_wintypes: "emits trace E import_wintypes"
  by (simp add: emits_def import_wintypes_def)

lemma emits_in_frame: "emits trace E m \<Longrightarrow> emits (\<lambda>x. trace (snd x)) E (in_frame m)"
  by (auto simp: emits_def in_frame_def split: prod.splits) (metis snd_conv)

lemma emits_with_frame: "emits (\<lambda>x. trace (snd x)) E m \<Longrightarrow> emits trace E (with_frame fr m)"
  by (auto simp: emits_def with_frame_def split: prod.splits) (metis snd_conv)

lemma emits_result_append: "emits (\<lambda>x. trace (snd x)) E (result_append x)"
  by (simp add: emits_def result_append_def split: prod.splits)

lemma emits_run_callbacks:
  assumes cb: "\<And>a b c d. emits tr E (cb a b c d)"
  shows "emits tr E (run_callbacks pol cb l es)"
proof (induction es)
  case Nil
  show ?case by (simp add: emits_def)
next
  case (Cons e es)
  obtain a b c where e: "e = (a, b, c)" by (cases e)
  show ?case
  proof (rule emitsI)
    fix s
    obtain r s1 where cs: "cb a b c l s = (r, s1)" by (cases "cb a b c l s")
    from emitsD[OF cb, of a b c l s] cs obtain n1 where n1: "tr s1 = tr s @ n1" "fst ` set n1 \<subseteq> E"
      by auto
    from emitsD[OF Cons.IH, of s1] obtain n2 where
      n2: "tr (snd (run_callbacks pol cb l es s1)) = tr s1 @ n2" "fst ` set n2 \<subseteq> E"
      by auto
    have stop: "\<exists>new. tr s1 = tr s @ new \<and> fst ` set new \<subseteq> E"
      using n1 by blast
    have go: "\<exists>new. tr (snd (run_callbacks pol cb l es s1)) = tr s @ new \<and> fst ` set new \<subseteq> E"
      using n1 n2 by (intro exI[of _ "n1 @ n2"]) auto
    show "\<exists>new. tr (snd (run_callbacks pol cb l (e # es) s)) = tr s @ new \<and> fst ` set new \<subseteq> E"
      using stop go by (cases pol; cases r) (auto simp: e cs)
  qed
qed

lemma emits_calls_of:
  assumes "emits trace E m"
  shows "fst ` set (calls_of m s) \<subseteq> E"
proof -
  from emitsD[OF assms, of s] obtain new where "trace (snd (m s)) = trace s @ new" "fst ` set new \<subseteq> E"
    by blast
  then show ?thesis by (simp add: calls_of_def)
qed

lemma emits_trace: "emits trace E m \<Longrightarrow> trace (snd (m s)) = trace s @ calls_of m s"
  using emitsD[of trace E m s] by (auto simp: calls_of_def)

lemma emits_callback:
  "emits (\<lambda>x. trace (snd x)) {FindResourceA, SizeofResource, LoadResource, LockResource, FreeResource}
     (callback p with_data hModule lpType lpName lParam)"
  unfolding callback_def
  by (intro emits_then emits_try_finally emits_in_frame emits_call emits_result_append emits_ret
        emits_pure conjI impI | simp)+

lemma emits_mono: "emits tr E m \<Longrightarrow> E \<subseteq> E' \<Longrightarrow> emits tr E' m"
  by (fastforce simp: emits_def)

lemma emits_if: "emits tr E a \<Longrightarrow> emits tr E b \<Longrightarrow> emits tr E (if c then a else b)"
  by simp

lemma emits_frame_pure: "emits tr E (\<lambda>(fr, s). (g fr s, (fr, s)))"
  by (simp add: emits_def split: prod.splits)

lemma emits_EnumResourceNames:
  fixes p :: "'w platform"
    and cb :: "pyobj \<Rightarrow> pyobj \<Rightarrow> pyobj \<Rightarrow> pyobj \<Rightarrow> (bool, 'f \<times> 'w state) py"
  assumes cb: "\<And>a b c d. emits (\<lambda>x. trace (snd x)) E (cb a b c d)" and E: "EnumResourceNamesA \<in> E"
  shows "emits (\<lambda>x. trace (snd x)) E (EnumResourceNames p hmodule kind cb lParam)"
proof (rule emitsI)
  fix x :: "'f \<times> 'w state"
  obtain fr s where x: "x = (fr, s)" by (cases x)
  define s1 where "s1 = s\<lparr>trace := trace s @ [(EnumResourceNamesA, [hmodule, kind, lParam])]\<rparr>"
  show "\<exists>new. trace (snd (snd (EnumResourceNames p hmodule kind cb lParam x))) = trace (snd x) @ new
          \<and> fst ` set new \<subseteq> E"
  proof (cases "enum_entries p [hmodule, kind, lParam] (world s1)")
    case (Inl e)
    then show ?thesis using E
      by (simp add: EnumResourceNames_def x s1_def Let_def)
  next
    case (Inr entries)
    from emitsD[OF emits_run_callbacks[of _ E cb], OF cb, of "callback_raised p" lParam entries "(fr, s1)"]
    obtain new where "trace (snd (snd (run_callbacks (callback_raised p) cb lParam entries (fr, s1)))) =
        trace s1 @ new" "fst ` set new \<subseteq> E"
      by auto
    then show ?thesis using E Inr
      by (intro exI[of _ "(EnumResourceNamesA, [hmodule, kind, lParam]) # new"])
         (simp add: EnumResourceNames_def x s1_def Let_def)
  qed
qed

lemma emits_getResourcesFromDLL:
  "emits trace library_entry_points (getResourcesFromDLL p filename kind with_data)"
  unfolding getResourcesFromDLL_def
  by (intro emits_then emits_import_wintypes emits_call emits_with_frame emits_in_frame
        emits_if emits_raise emits_frame_pure
        emits_EnumResourceNames emits_mono[OF emits_callback])
     (auto simp: library_entry_points_def)

lemma emits_openFileWindowsResources:
  "emits trace {BeginUpdateResourceA, BeginUpdateResourceW} (openFileWindowsResources p filename)"
  unfolding openFileWindowsResources_def
  by (intro emits_then emits_use_wintypes emits_call) (auto simp: emits_raise emits_ret)

lemma emits_closeFileWindowsResources:
  "emits trace {EndUpdateResourceA} (closeFileWindowsResources p h)"
  unfolding closeFileWindowsResources_def
  by (intro emits_then emits_use_wintypes emits_call) (auto simp: emits_raise emits_ret)

lemma emits_updateResource:
  "emits trace {UpdateResourceA} (updateResource p h k n lang d)"
  unfolding updateResource_def
  by (intro emits_then emits_use_wintypes emits_call emits_pure) (auto simp: emits_raise emits_ret)

section \<open>Staged updates: claims C8 and C9\<close>

lemma updateResource_run:
  "updateResource p h k n lang d s =
     (case (if d = PyNone then Inr 0 else py_len d) of
        Inl e \<Rightarrow> (Inl e, s)
      | Inr cb \<Rightarrow>
          if \<not> wintypes s then (Inl AttributeError, s)
          else
            (case foreign p UpdateResourceA [h, k, n, PyInt 0, d, PyInt cb] (world s) of
               (r, w) \<Rightarrow>
                 ((case r of
                     Inl e \<Rightarrow> Inl (Foreign e)
                   | Inr v \<Rightarrow> if truthy v then Inr PyNone else Inl WinError),
                  s\<lparr>world := w,
                    trace := trace s @ [(UpdateResourceA, [h, k, n, PyInt 0, d, PyInt cb])]\<rparr>)))"
  by (simp add: updateResource_def py_defs split: sum.splits prod.splits)

text \<open>
  Claim C8.  The parameter \<open>lang\<close> of \<^verbatim>\<open>_updateResource\<close> has no effect: for any two
  values of it the function is the same state transformer, and the one call it can
  make, to \<^verbatim>\<open>UpdateResourceA\<close>, carries the language 0.
\<close>
theorem updateResource_lang_neutral:
  "updateResource p h k n lang1 d = updateResource p h k n lang2 d \<and>
   (calls_of (updateResource p h k n lang1 d) s = [] \<or>
    (\<exists>cb. calls_of (updateResource p h k n lang1 d) s =
       [(UpdateResourceA, [h, k, n, PyInt 0, d, PyInt cb])]))"
proof
  show "updateResource p h k n lang1 d = updateResource p h k n lang2 d"
    by (simp add: updateResource_def)
  show "calls_of (updateResource p h k n lang1 d) s = [] \<or>
    (\<exists>cb. calls_of (updateResource p h k n lang1 d) s =
       [(UpdateResourceA, [h, k, n, PyInt 0, d, PyInt cb])])"
    by (auto simp: updateResource_run calls_of_def split: sum.splits prod.splits)
qed

lemma emits_delete_loop: "emits trace {UpdateResourceA} (delete_loop p h k ns)"
  by (induction ns) (auto intro!: emits_then emits_updateResource emits_if emits_raise emits_ret)

lemma emits_copy_loop: "emits trace {UpdateResourceA} (copy_loop p h k res)"
proof (induction res)
  case Nil
  show ?case by (simp add: emits_ret)
next
  case (Cons x res)
  show ?case
  proof (cases "unpack3 (py3 p) x")
    case (Inl e)
    then show ?thesis by (simp add: emits_raise)
  next
    case (Inr t)
    obtain a b c where t: "t = (a, b, c)" by (cases t)
    show ?thesis
      using Cons by (auto simp: Inr t intro!: emits_then emits_updateResource emits_raise)
  qed
qed

lemma emits_deleteWindowsResources:
  "emits trace session_entry_points (deleteWindowsResources p filename k ns)"
  unfolding deleteWindowsResources_def
  by (intro emits_then emits_mono[OF emits_openFileWindowsResources]
        emits_mono[OF emits_delete_loop] emits_mono[OF emits_closeFileWindowsResources])
     (simp_all add: session_entry_points_def)

lemma emits_addResourceToFile:
  "emits trace session_entry_points (addResourceToFile p filename d k n)"
  unfolding addResourceToFile_def
  by (intro emits_then emits_mono[OF emits_openFileWindowsResources]
        emits_mono[OF emits_updateResource] emits_mono[OF emits_closeFileWindowsResources])
     (simp_all add: session_entry_points_def)

lemma emits_copyResourcesFromFileToFile:
  "emits trace (library_entry_points \<union> session_entry_points)
     (copyResourcesFromFileToFile p source_filename target_filename k)"
  unfolding copyResourcesFromFileToFile_def
  by (intro emits_then emits_if emits_ret emits_mono[OF emits_getResourcesFromDLL]
        emits_mono[OF emits_openFileWindowsResources]
        emits_mono[OF emits_copy_loop] emits_mono[OF emits_closeFileWindowsResources])
     (auto simp: session_entry_points_def)

text \<open>
  Claim C9.  A staged update goes through \<^verbatim>\<open>UpdateResourceA\<close> and nothing else,
  whatever the kind and the name are, and the entry points called are the same for any
  two names.  The enumeration calls \<^verbatim>\<open>EnumResourceNamesA\<close> and
  \<^verbatim>\<open>FindResourceA\<close>, never a wide entry point for identifiers; the only wide
  entry point it can reach, \<^verbatim>\<open>LoadLibraryExW\<close>, is chosen by the file name.  The
  composed operations call nothing but these entry points and those of the session,
  where likewise only the opening has a wide form, chosen by the file name.
\<close>
theorem identifiers_use_narrow_entry_points:
  "fst ` set (calls_of (updateResource p h k n lang d) s) \<subseteq> {UpdateResourceA} \<and>
   map fst (calls_of (updateResource p h k n lang d) s) =
     map fst (calls_of (updateResource p h k n' lang d) s) \<and>
   fst ` set (calls_of (getResourcesFromDLL p filename k with_data) s) \<subseteq>
     {LoadLibraryExA, LoadLibraryExW, EnumResourceNamesA, FindResourceA, SizeofResource,
      LoadResource, LockResource, FreeResource, FreeLibrary} \<and>
   fst ` set (calls_of (deleteWindowsResources p filename k ns) s) \<subseteq> session_entry_points \<and>
   fst ` set (calls_of (addResourceToFile p filename d k n) s) \<subseteq> session_entry_points \<and>
   fst ` set (calls_of (copyResourcesFromFileToFile p filename filename' k) s) \<subseteq>
     library_entry_points \<union> session_entry_points"
proof (intro conjI)
  show "fst ` set (calls_of (deleteWindowsResources p filename k ns) s) \<subseteq> session_entry_points"
    by (rule emits_calls_of[OF emits_deleteWindowsResources])
  show "fst ` set (calls_of (addResourceToFile p filename d k n) s) \<subseteq> session_entry_points"
    by (rule emits_calls_of[OF emits_addResourceToFile])
  show "fst ` set (calls_of (copyResourcesFromFileToFile p filename filename' k) s) \<subseteq>
     library_entry_points \<union> session_entry_points"
    by (rule emits_calls_of[OF emits_copyResourcesFromFileToFile])
  show "fst ` set (calls_of (updateResource p h k n lang d) s) \<subseteq> {UpdateResourceA}"
    by (rule emits_calls_of[OF emits_updateResource])
  show "map fst (calls_of (updateResource p h k n lang d) s) =
     map fst (calls_of (updateResource p h k n' lang d) s)"
    by (auto simp: updateResource_run calls_of_def split: sum.splits prod.splits)
  show "fst ` set (calls_of (getResourcesFromDLL p filename k with_data) s) \<subseteq>
     {LoadLibraryExA, LoadLibraryExW, EnumResourceNamesA, FindResourceA, SizeofResource,
      LoadResource, LockResource, FreeResource, FreeLibrary}"
    using emits_calls_of[OF emits_getResourcesFromDLL] by (simp add: library_entry_points_def)
qed

section \<open>Deleting resources: claims C2 and C1\<close>

lemma call_trace: "trace (snd (call p f args s)) = trace s @ [(f, args)]"
  by (simp add: call_def split: prod.splits)

lemma openFileWindowsResources_run:
  "openFileWindowsResources p filename s =
     (if \<not> wintypes s then (Inl AttributeError, s)
      else
        (case foreign p (if wide_filename p filename then BeginUpdateResourceW else BeginUpdateResourceA)
                [filename, PyInt 0] (world s) of
           (r, w) \<Rightarrow>
             ((case r of
                 Inl e \<Rightarrow> Inl (Foreign e)
               | Inr v \<Rightarrow> if truthy v then Inr v else Inl WinError),
              s\<lparr>world := w,
                trace := trace s @
                  [(if wide_filename p filename then BeginUpdateResourceW else BeginUpdateResourceA,
                    [filename, PyInt 0])]\<rparr>)))"
  by (simp add: openFileWindowsResources_def py_defs split: sum.splits prod.splits)

lemma openFileWindowsResources_wintypes:
  "openFileWindowsResources p filename s = (Inr h, s1) \<Longrightarrow> wintypes s1"
  by (auto simp: openFileWindowsResources_run split: if_splits prod.splits sum.splits)

text \<open>
  Claim C2.  On a non-empty list of names \<^verbatim>\<open>deleteWindowsResources\<close> always raises
  and never calls \<^verbatim>\<open>EndUpdateResourceA\<close>.  When the session opens, the calls after
  the opening are exactly one: the staged deletion of the first name; and whenever the
  system returns from that call, accepting the deletion or not, the error is
  \<^verbatim>\<open>WinError\<close>.  The value of \<^verbatim>\<open>_updateResource\<close>, where it returns, is always
  \<^verbatim>\<open>None\<close>, which is false.
\<close>
theorem deleteWindowsResources_nonempty_raises:
  "(\<exists>e. fst (deleteWindowsResources p filename kind (x # xs) s) = Inl e) \<and>
   EndUpdateResourceA \<notin> fst ` set (calls_of (deleteWindowsResources p filename kind (x # xs)) s) \<and>
   (\<forall>h s1. openFileWindowsResources p filename s = (Inr h, s1) \<longrightarrow>
      trace (snd (deleteWindowsResources p filename kind (x # xs) s)) =
        trace s1 @ [(UpdateResourceA, [h, kind, x, PyInt 0, PyNone, PyInt 0])] \<and>
      (\<forall>v w. foreign p UpdateResourceA [h, kind, x, PyInt 0, PyNone, PyInt 0] (world s1) = (Inr v, w) \<longrightarrow>
         fst (deleteWindowsResources p filename kind (x # xs) s) = Inl WinError)) \<and>
   (\<forall>v. fst (updateResource p h' k' n' lang' d' s') = Inr v \<longrightarrow> v = PyNone \<and> \<not> truthy v)"
proof -
  have none: "\<forall>v. fst (updateResource p h' k' n' lang' d' s') = Inr v \<longrightarrow> v = PyNone \<and> \<not> truthy v"
    by (auto simp: updateResource_run split: sum.splits prod.splits if_splits)
  obtain r s1 where op: "openFileWindowsResources p filename s = (r, s1)"
    by (cases "openFileWindowsResources p filename s")
  have tr1: "trace s1 = trace s \<or> (\<exists>c. fst c \<in> {BeginUpdateResourceA, BeginUpdateResourceW} \<and> trace s1 = trace s @ [c])"
    using op by (auto simp: openFileWindowsResources_run split: if_splits prod.splits)
  show ?thesis
  proof (cases r)
    case (Inl e)
    with op tr1 none show ?thesis
      by (auto simp: deleteWindowsResources_def then_py_def calls_of_def)
  next
    case (Inr h)
    have wt: "wintypes s1" using op Inr by (simp add: openFileWindowsResources_wintypes)
    obtain r2 w2 where f: "foreign p UpdateResourceA [h, kind, x, PyInt 0, PyNone, PyInt 0] (world s1) = (r2, w2)"
      by (cases "foreign p UpdateResourceA [h, kind, x, PyInt 0, PyNone, PyInt 0] (world s1)")
    have run: "deleteWindowsResources p filename kind (x # xs) s =
        ((case r2 of Inl e \<Rightarrow> Inl (Foreign e) | Inr v \<Rightarrow> Inl WinError),
         s1\<lparr>world := w2, trace := trace s1 @ [(UpdateResourceA, [h, kind, x, PyInt 0, PyNone, PyInt 0])]\<rparr>)"
      using op Inr wt f
      by (simp add: deleteWindowsResources_def then_py_def raise_py_def ret_py_def updateResource_run
            split: sum.splits)
    show ?thesis
      using tr1 op Inr f none by (auto simp: run calls_of_def split: sum.splits)
  qed
qed

lemma ref_call_simps:
  "ref_call LoadLibraryExA [filename, PyInt a, PyInt b] w = ref_load (narrow_path filename) w"
  "ref_call LoadLibraryExW [filename, PyInt a, PyInt b] w = ref_load (wide_path filename) w"
  "ref_call FreeLibrary [PyInt h] w =
     (case modules w h of
        None \<Rightarrow> (PyInt 0, w)
      | Some dir \<Rightarrow> (PyInt 1, w\<lparr>modules := (modules w)(h := None)\<rparr>))"
  "ref_call FindResourceA [PyInt h, lpName, lpType] w = (PyInt (find_resource w h lpName lpType), w)"
  "ref_call SizeofResource [PyInt h, PyInt r] w =
     (case entry_at w h r of None \<Rightarrow> (PyInt 0, w) | Some d \<Rightarrow> (PyInt (int (length d)), w))"
  "ref_call LoadResource [PyInt h, PyInt r] w =
     (case entry_at w h r of
        None \<Rightarrow> (PyInt 0, w)
      | Some d \<Rightarrow> (PyInt (fresh w), bump (w\<lparr>blocks := (blocks w)(fresh w \<mapsto> d)\<rparr>)))"
  "ref_call LockResource [PyInt a] w =
     (case blocks w a of None \<Rightarrow> (PyInt 0, w) | Some d \<Rightarrow> (PyInt a, w))"
  "ref_call FreeResource [PyInt a] w = (PyInt 0, w\<lparr>blocks := (blocks w)(a := None)\<rparr>)"
  "ref_call BeginUpdateResourceA [filename, del] w = ref_begin (narrow_path filename) del w"
  "ref_call BeginUpdateResourceW [filename, del] w = ref_begin (wide_path filename) del w"
  "ref_call UpdateResourceA [PyInt h, kind, name, PyInt lang, data, PyInt cb] w =
     ref_update h kind name data cb w"
  "ref_call EndUpdateResourceA [PyInt h, discard] w = ref_end h discard w"
  by (simp_all add: ref_call_def)

lemmas ref_eval = ref_platform_def ref_foreign_def converted_def with_argtypes_def returned_def
  handle_of_def c_int_def ref_call_simps ref_begin_def ref_load_def
  ref_update_def ref_end_def ref_enum_entries_def ref_string_at_def narrow_path_def wide_path_def
  one_file_def fresh_def bump_def find_resource_def entry_at_def resolve_def as_long_def
  stage_apply_def wide_filename_def

theorem deleteWindowsResources_nonempty_raises_witness:
  "fst (openFileWindowsResources ref_platform (PyBytes ''a.exe'')
          (one_file ''a.exe'' [((PyInt 24, PyInt 1), ''xml''), ((PyInt 24, PyInt 2), ''xml'')])) = Inr (PyInt 1) \<and>
   fst (deleteWindowsResources ref_platform (PyBytes ''a.exe'') (PyInt 24) [PyInt 1, PyInt 2]
          (one_file ''a.exe'' [((PyInt 24, PyInt 1), ''xml''), ((PyInt 24, PyInt 2), ''xml'')])) = Inl WinError \<and>
   trace (snd (deleteWindowsResources ref_platform (PyBytes ''a.exe'') (PyInt 24) [PyInt 1, PyInt 2]
          (one_file ''a.exe'' [((PyInt 24, PyInt 1), ''xml''), ((PyInt 24, PyInt 2), ''xml'')]))) =
     [(BeginUpdateResourceA, [PyBytes ''a.exe'', PyInt 0]),
      (UpdateResourceA, [PyInt 1, PyInt 24, PyInt 1, PyInt 0, PyNone, PyInt 0])]"
proof -
  let ?s = "one_file ''a.exe'' [((PyInt 24, PyInt 1), ''xml''), ((PyInt 24, PyInt 2), ''xml'')]"
  let ?o = "openFileWindowsResources ref_platform (PyBytes ''a.exe'') ?s"
  let ?u = "foreign ref_platform UpdateResourceA [PyInt 1, PyInt 24, PyInt 1, PyInt 0, PyNone, PyInt 0]
              (world (snd ?o))"
  have o1: "fst ?o = Inr (PyInt 1)"
    by (simp add: openFileWindowsResources_run ref_eval)
  have o2: "trace (snd ?o) = [(BeginUpdateResourceA, [PyBytes ''a.exe'', PyInt 0])]"
    by (simp add: openFileWindowsResources_run ref_eval)
  have o3: "fst ?u = Inr (PyInt 1)"
    by (simp add: openFileWindowsResources_run ref_eval)
  have o: "?o = (Inr (PyInt 1), snd ?o)"
    using o1 by (simp add: prod_eq_iff)
  have f: "?u = (Inr (PyInt 1), snd ?u)"
    using o3 by (simp add: prod_eq_iff)
  note inst = deleteWindowsResources_nonempty_raises[of ref_platform "PyBytes ''a.exe''" "PyInt 24" "PyInt 1" "[PyInt 2]" ?s]
  from inst o have t: "trace (snd (deleteWindowsResources ref_platform (PyBytes ''a.exe'') (PyInt 24) [PyInt 1, PyInt 2] ?s)) =
        trace (snd ?o) @ [(UpdateResourceA, [PyInt 1, PyInt 24, PyInt 1, PyInt 0, PyNone, PyInt 0])]"
    by blast
  from inst o f have e: "fst (deleteWindowsResources ref_platform (PyBytes ''a.exe'') (PyInt 24) [PyInt 1, PyInt 2] ?s) = Inl WinError"
    by blast
  show ?thesis using o1 e t o2 by simp
qed

text \<open>
  Claim C1, which the code does not meet.  On the reference system, with a file that
  holds the manifest 1, deleting the list \<open>[1]\<close> opens the session and stages the
  deletion, which the system accepts (it stands in the session); the function then
  raises \<^verbatim>\<open>WinError\<close>: the session is never committed and the file keeps the
  manifest.
\<close>
theorem deleteWindowsResources_accepted_delete_not_committed:
  "fst (deleteWindowsResources ref_platform (PyBytes ''a.exe'') (PyInt 24) [PyInt 1]
          (one_file ''a.exe'' [((PyInt 24, PyInt 1), ''xml'')])) = Inl WinError \<and>
   trace (snd (deleteWindowsResources ref_platform (PyBytes ''a.exe'') (PyInt 24) [PyInt 1]
          (one_file ''a.exe'' [((PyInt 24, PyInt 1), ''xml'')]))) =
     [(BeginUpdateResourceA, [PyBytes ''a.exe'', PyInt 0]),
      (UpdateResourceA, [PyInt 1, PyInt 24, PyInt 1, PyInt 0, PyNone, PyInt 0])] \<and>
   sessions (world (snd (deleteWindowsResources ref_platform (PyBytes ''a.exe'') (PyInt 24) [PyInt 1]
          (one_file ''a.exe'' [((PyInt 24, PyInt 1), ''xml'')])))) 1 =
     Some (''a.exe'', [((PyInt 24, PyInt 1), PyNone)]) \<and>
   files (world (snd (deleteWindowsResources ref_platform (PyBytes ''a.exe'') (PyInt 24) [PyInt 1]
          (one_file ''a.exe'' [((PyInt 24, PyInt 1), ''xml'')])))) ''a.exe'' =
     Some [((PyInt 24, PyInt 1), ''xml'')]"
  by (simp add: deleteWindowsResources_def openFileWindowsResources_run updateResource_run
        then_py_def raise_py_def ret_py_def ref_eval)

section \<open>Enumeration: claims C3, C4 and C7\<close>

lemma closeFileWindowsResources_run:
  "closeFileWindowsResources p h s =
     (if \<not> wintypes s then (Inl AttributeError, s)
      else
        (case foreign p EndUpdateResourceA [h, PyInt 0] (world s) of
           (r, w) \<Rightarrow>
             ((case r of
                 Inl e \<Rightarrow> Inl (Foreign e)
               | Inr v \<Rightarrow> if truthy v then Inr PyNone else Inl WinError),
              s\<lparr>world := w, trace := trace s @ [(EndUpdateResourceA, [h, PyInt 0])]\<rparr>)))"
  by (simp add: closeFileWindowsResources_def py_defs split: sum.splits prod.splits)

text \<open>The body of getResourcesFromDLL after a successful load, as one step.\<close>

lemma getResourcesFromDLL_run:
  "getResourcesFromDLL p filename kind with_data s =
     (case call p (if wide_filename p filename then LoadLibraryExW else LoadLibraryExA)
             [filename, PyInt 0, PyInt 35] (s\<lparr>wintypes := True\<rparr>) of
        (Inl e, s1) \<Rightarrow> (Inl e, s1)
      | (Inr hmodule, s1) \<Rightarrow>
          if hmodule = PyInt 0 then (Inl WinError, s1)
          else
            (case EnumResourceNames p hmodule kind (callback p with_data) PyNone ([], s1) of
               (Inl e, (result, s2)) \<Rightarrow> (Inl e, s2)
             | (Inr u, (result, s2)) \<Rightarrow>
                 (case call p FreeLibrary [hmodule] s2 of
                    (Inl e, s3) \<Rightarrow> (Inl e, s3)
                  | (Inr v, s3) \<Rightarrow> (Inr result, s3))))"
  by (simp add: getResourcesFromDLL_def then_py_def import_wintypes_def raise_py_def with_frame_def
        in_frame_def DONT_RESOLVE_DLL_REFERENCES_def LOAD_LIBRARY_AS_DATAFILE_def
        LOAD_LIBRARY_AS_IMAGE_RESOURCE_def split: sum.splits prod.splits)

lemma EnumResourceNames_run:
  "EnumResourceNames p hmodule kind cb lParam (fr, s) =
     (case enum_entries p [hmodule, kind, lParam] (world s) of
        Inl e \<Rightarrow> (Inl (Foreign e), (fr, s\<lparr>trace := trace s @ [(EnumResourceNamesA, [hmodule, kind, lParam])]\<rparr>))
      | Inr entries \<Rightarrow>
          run_callbacks (callback_raised p) cb lParam entries
            (fr, s\<lparr>trace := trace s @ [(EnumResourceNamesA, [hmodule, kind, lParam])]\<rparr>))"
  by (simp add: EnumResourceNames_def Let_def)

text \<open>
  What the function does keep: when it returns a list, the release of the library is its
  last call and its only call of \<^verbatim>\<open>FreeLibrary\<close>.
\<close>

lemma getResourcesFromDLL_released_on_return:
  assumes "fst (getResourcesFromDLL p filename kind with_data s) = Inr res"
  shows "\<exists>hmodule new.
           calls_of (getResourcesFromDLL p filename kind with_data) s = new @ [(FreeLibrary, [hmodule])] \<and>
           FreeLibrary \<notin> fst ` set new"
proof -
  let ?ll = "if wide_filename p filename then LoadLibraryExW else LoadLibraryExA"
  let ?E = "{EnumResourceNamesA, FindResourceA, SizeofResource, LoadResource, LockResource,
             FreeResource}"
  obtain rl s1 where l: "call p ?ll [filename, PyInt 0, PyInt 35] (s\<lparr>wintypes := True\<rparr>) = (rl, s1)"
    by (cases "call p ?ll [filename, PyInt 0, PyInt 35] (s\<lparr>wintypes := True\<rparr>)")
  have t1: "trace s1 = trace s @ [(?ll, [filename, PyInt 0, PyInt 35])]"
    using call_trace[of p ?ll "[filename, PyInt 0, PyInt 35]" "s\<lparr>wintypes := True\<rparr>"] l by simp
  from assms l obtain hmodule where rl: "rl = Inr hmodule" and h0: "hmodule \<noteq> PyInt 0"
    by (cases rl) (auto simp: getResourcesFromDLL_run split: if_splits)
  obtain re fr s2 where
    e: "EnumResourceNames p hmodule kind (callback p with_data) PyNone ([], s1) = (re, (fr, s2))"
    by (cases "EnumResourceNames p hmodule kind (callback p with_data) PyNone ([], s1)") auto
  have "emits (\<lambda>x. trace (snd x)) ?E (EnumResourceNames p hmodule kind (callback p with_data) PyNone)"
    by (rule emits_EnumResourceNames[OF emits_mono[OF emits_callback]]) auto
  from emitsD[OF this, of "([], s1)"] e obtain new2 where
    t2: "trace s2 = trace s1 @ new2" and n2: "fst ` set new2 \<subseteq> ?E"
    by auto
  obtain rf s3 where f: "call p FreeLibrary [hmodule] s2 = (rf, s3)"
    by (cases "call p FreeLibrary [hmodule] s2")
  have t3: "trace s3 = trace s2 @ [(FreeLibrary, [hmodule])]"
    using call_trace[of p FreeLibrary "[hmodule]" s2] f by simp
  from assms l rl h0 e f have s3: "snd (getResourcesFromDLL p filename kind with_data s) = s3"
    by (auto simp: getResourcesFromDLL_run split: sum.splits)
  have c: "calls_of (getResourcesFromDLL p filename kind with_data) s =
      ((?ll, [filename, PyInt 0, PyInt 35]) # new2) @ [(FreeLibrary, [hmodule])]"
    by (simp add: calls_of_def s3 t3 t2 t1)
  have "FreeLibrary \<notin> fst ` set ((?ll, [filename, PyInt 0, PyInt 35]) # new2)"
    using n2 by auto
  with c show ?thesis by blast
qed

text \<open>
  Claim C3, which the code does not meet.  On the reference system the file is loaded
  under the handle 1; the kind \<open>2\<^sup>3\<^sup>2\<close> does not fit a C \<^verbatim>\<open>long\<close>, so the call of
  \<^verbatim>\<open>EnumResourceNamesA\<close> raises \<^verbatim>\<open>ctypes.ArgumentError\<close>.  No call of
  \<^verbatim>\<open>FreeLibrary\<close> follows and the file stays mapped under the handle.
\<close>
theorem getResourcesFromDLL_enumeration_raises_no_release:
  "fst (getResourcesFromDLL ref_platform (PyBytes ''a.exe'') (PyInt 4294967296) False
          (one_file ''a.exe'' [((PyInt 24, PyInt 1), ''xml'')])) = Inl (Foreign ArgumentError) \<and>
   trace (snd (getResourcesFromDLL ref_platform (PyBytes ''a.exe'') (PyInt 4294967296) False
          (one_file ''a.exe'' [((PyInt 24, PyInt 1), ''xml'')]))) =
     [(LoadLibraryExA, [PyBytes ''a.exe'', PyInt 0, PyInt 35]),
      (EnumResourceNamesA, [PyInt 1, PyInt 4294967296, PyNone])] \<and>
   modules (world (snd (getResourcesFromDLL ref_platform (PyBytes ''a.exe'') (PyInt 4294967296) False
          (one_file ''a.exe'' [((PyInt 24, PyInt 1), ''xml'')])))) 1 =
     Some [((PyInt 24, PyInt 1), ''xml'')]"
  by (simp add: getResourcesFromDLL_run EnumResourceNames_run call_def from_ffi_def ref_eval)

text \<open>
  Claim C4.  In the callback with \<open>with_data\<close> set, once \<^verbatim>\<open>FindResourceA\<close>,
  \<^verbatim>\<open>SizeofResource\<close> and \<^verbatim>\<open>LoadResource\<close> have returned, the block \<open>hData\<close> being
  loaded, the calls that follow are exactly \<^verbatim>\<open>LockResource(hData)\<close> and then
  \<^verbatim>\<open>FreeResource(hData)\<close>, on every path: whether locking raises, whether the copy by
  \<^verbatim>\<open>string_at\<close> raises, whether the release itself raises.
\<close>
theorem callback_releases_block:
  assumes "call p FindResourceA [hModule, lpName, lpType] s = (Inr hResource, s1)"
    and "call p SizeofResource [hModule, hResource] s1 = (Inr sz, s2)"
    and "call p LoadResource [hModule, hResource] s2 = (Inr hData, s3)"
  shows "trace (snd (snd (callback p True hModule lpType lpName lParam (result, s)))) =
           trace s3 @ [(LockResource, [hData]), (FreeResource, [hData])]"
proof -
  obtain r4 s4 where l: "call p LockResource [hData] s3 = (r4, s4)"
    by (cases "call p LockResource [hData] s3")
  obtain r5 s5 where f: "call p FreeResource [hData] s4 = (r5, s5)"
    by (cases "call p FreeResource [hData] s4")
  have t4: "trace s4 = trace s3 @ [(LockResource, [hData])]"
    using call_trace[of p LockResource "[hData]" s3] l by simp
  have t5: "trace s5 = trace s4 @ [(FreeResource, [hData])]"
    using call_trace[of p FreeResource "[hData]" s4] f by simp
  show ?thesis
    using assms l f t4 t5
    by (simp add: callback_def then_py_def try_finally_def in_frame_def result_append_def ret_py_def
          split: sum.splits prod.splits)
qed

theorem callback_releases_block_witness:
  "trace (snd (snd (callback ref_platform True (PyInt 1) (PyInt 24) (PyInt 7) PyNone
      ([], snd (call ref_platform LoadLibraryExA [PyBytes ''a.exe'', PyInt 0, PyInt 35]
                  (one_file ''a.exe'' [((PyInt 24, PyInt 7), ''xml'')])))))) =
     [(LoadLibraryExA, [PyBytes ''a.exe'', PyInt 0, PyInt 35]),
      (FindResourceA, [PyInt 1, PyInt 7, PyInt 24]),
      (SizeofResource, [PyInt 1, PyInt 1]),
      (LoadResource, [PyInt 1, PyInt 1]),
      (LockResource, [PyInt 2]),
      (FreeResource, [PyInt 2])]"
proof -
  let ?s = "snd (call ref_platform LoadLibraryExA [PyBytes ''a.exe'', PyInt 0, PyInt 35]
                  (one_file ''a.exe'' [((PyInt 24, PyInt 7), ''xml'')]))"
  let ?c1 = "call ref_platform FindResourceA [PyInt 1, PyInt 7, PyInt 24] ?s"
  let ?c2 = "call ref_platform SizeofResource [PyInt 1, PyInt 1] (snd ?c1)"
  let ?c3 = "call ref_platform LoadResource [PyInt 1, PyInt 1] (snd ?c2)"
  have 1: "?c1 = (Inr (PyInt 1), snd ?c1)"
    by (simp add: prod_eq_iff call_def from_ffi_def ref_eval)
  have 2: "?c2 = (Inr (PyInt 3), snd ?c2)"
    by (simp add: prod_eq_iff call_def from_ffi_def ref_eval)
  have 3: "?c3 = (Inr (PyInt 2), snd ?c3)"
    by (simp add: prod_eq_iff call_def from_ffi_def ref_eval)
  have t: "trace (snd ?c3) =
     [(LoadLibraryExA, [PyBytes ''a.exe'', PyInt 0, PyInt 35]),
      (FindResourceA, [PyInt 1, PyInt 7, PyInt 24]),
      (SizeofResource, [PyInt 1, PyInt 1]),
      (LoadResource, [PyInt 1, PyInt 1])]"
    by (simp add: call_trace one_file_def)
  show ?thesis
    using callback_releases_block[OF 1 2 3, of PyNone "[]"] t by simp
qed



section \<open>Copying between files: claims C5 and C10\<close>

text \<open>
  Claim C5.  When the enumeration of the source yields no resource of the kind,
  \<^verbatim>\<open>copyResourcesFromFileToFile\<close> returns at once: the state it leaves is the state
  the enumeration of the source left, and every call it made is a call of the library
  entry points, none of them one that opens, stages or commits an update session.
\<close>
theorem copyResourcesFromFileToFile_nothing_to_copy:
  assumes "fst (getResourcesFromDLL p source_filename kind True s) = Inr []"
  shows "copyResourcesFromFileToFile p source_filename target_filename kind s =
           (Inr PyNone, snd (getResourcesFromDLL p source_filename kind True s)) \<and>
         fst ` set (calls_of (copyResourcesFromFileToFile p source_filename target_filename kind) s)
           \<subseteq> {LoadLibraryExA, LoadLibraryExW, EnumResourceNamesA, FindResourceA, SizeofResource,
              LoadResource, LockResource, FreeResource, FreeLibrary}"
proof -
  have run: "copyResourcesFromFileToFile p source_filename target_filename kind s =
           (Inr PyNone, snd (getResourcesFromDLL p source_filename kind True s))"
    using assms
    by (cases "getResourcesFromDLL p source_filename kind True s")
       (simp add: copyResourcesFromFileToFile_def then_py_def ret_py_def)
  have "calls_of (copyResourcesFromFileToFile p source_filename target_filename kind) s =
        calls_of (getResourcesFromDLL p source_filename kind True) s"
    by (simp add: calls_of_def run)
  then show ?thesis
    using run emits_calls_of[OF emits_getResourcesFromDLL, of p source_filename kind True s]
    by (simp add: library_entry_points_def)
qed

theorem copyResourcesFromFileToFile_nothing_to_copy_witness:
  "copyResourcesFromFileToFile ref_platform (PyBytes ''a.exe'') (PyBytes ''b.exe'') (PyInt 3)
     (one_file ''a.exe'' [((PyInt 24, PyInt 7), ''xml'')]) =
   (Inr PyNone, snd (getResourcesFromDLL ref_platform (PyBytes ''a.exe'') (PyInt 3) True
     (one_file ''a.exe'' [((PyInt 24, PyInt 7), ''xml'')]))) \<and>
   calls_of (copyResourcesFromFileToFile ref_platform (PyBytes ''a.exe'') (PyBytes ''b.exe'') (PyInt 3))
     (one_file ''a.exe'' [((PyInt 24, PyInt 7), ''xml'')]) =
   [(LoadLibraryExA, [PyBytes ''a.exe'', PyInt 0, PyInt 35]),
    (EnumResourceNamesA, [PyInt 1, PyInt 3, PyNone]),
    (FreeLibrary, [PyInt 1])] \<and>
   files (world (snd (copyResourcesFromFileToFile ref_platform (PyBytes ''a.exe'') (PyBytes ''b.exe'')
     (PyInt 3) (one_file ''a.exe'' [((PyInt 24, PyInt 7), ''xml'')])))) =
   files (world (one_file ''a.exe'' [((PyInt 24, PyInt 7), ''xml'')]))"
proof -
  let ?s = "one_file ''a.exe'' [((PyInt 24, PyInt 7), ''xml'')]"
  have fl: "files (world (snd (getResourcesFromDLL ref_platform (PyBytes ''a.exe'') (PyInt 3) True ?s))) =
      files (world ?s)"
    by (simp add: getResourcesFromDLL_run EnumResourceNames_run call_def from_ffi_def ref_eval)
  have g: "fst (getResourcesFromDLL ref_platform (PyBytes ''a.exe'') (PyInt 3) True ?s) = Inr []"
    by (simp add: getResourcesFromDLL_run EnumResourceNames_run call_def from_ffi_def ref_eval)
  have t: "trace (snd (getResourcesFromDLL ref_platform (PyBytes ''a.exe'') (PyInt 3) True ?s)) =
     [(LoadLibraryExA, [PyBytes ''a.exe'', PyInt 0, PyInt 35]),
      (EnumResourceNamesA, [PyInt 1, PyInt 3, PyNone]),
      (FreeLibrary, [PyInt 1])]"
    by (simp add: getResourcesFromDLL_run EnumResourceNames_run call_def from_ffi_def ref_eval)
  from copyResourcesFromFileToFile_nothing_to_copy[OF g, of "PyBytes ''b.exe''"]
  have c: "copyResourcesFromFileToFile ref_platform (PyBytes ''a.exe'') (PyBytes ''b.exe'') (PyInt 3) ?s =
      (Inr PyNone, snd (getResourcesFromDLL ref_platform (PyBytes ''a.exe'') (PyInt 3) True ?s))"
    by blast
  show ?thesis using c t fl by (simp add: calls_of_def one_file_def)
qed






































section \<open>Adding a resource and reading it back: claim C6\<close>

text \<open>
  Claim C6, which the code does not meet.  The reference system has handed out
  \<open>2\<^sup>3\<^sup>1 - 1\<close> handles, as a 64-bit system does whose addresses lie above \<open>2\<^sup>3\<^sup>1\<close>.
  \<^verbatim>\<open>addResourceToFile\<close> returns and the file holds the five bytes under the kind 10
  and the name 7: the handle of the session comes back whole, its \<^verbatim>\<open>restype\<close> being
  \<^verbatim>\<open>HANDLE\<close>.  The handle of the library comes back as a C \<^verbatim>\<open>int\<close>, no
  \<^verbatim>\<open>restype\<close> being set on \<^verbatim>\<open>LoadLibraryEx\<close>: it is cut to a negative number, which
  the enumeration does not know, and \<^verbatim>\<open>getResourcesFromDLL\<close> returns no record at all.
\<close>

theorem addResourceToFile_roundtrip_handle_cut:
  "fst (addResourceToFile ref_platform (PyBytes ''a.exe'') (PyBytes ''hello'') (PyInt 10) (PyInt 7)
          (one_file_at 2147483647 ''a.exe'' [])) = Inr PyNone \<and>
   files (world (snd (addResourceToFile ref_platform (PyBytes ''a.exe'') (PyBytes ''hello'')
          (PyInt 10) (PyInt 7) (one_file_at 2147483647 ''a.exe'' [])))) ''a.exe'' =
     Some [((PyInt 10, PyInt 7), ''hello'')] \<and>
   fst (getResourcesFromDLL ref_platform (PyBytes ''a.exe'') (PyInt 10) True
          (snd (addResourceToFile ref_platform (PyBytes ''a.exe'') (PyBytes ''hello'')
             (PyInt 10) (PyInt 7) (one_file_at 2147483647 ''a.exe'' [])))) = Inr [] \<and>
   calls_of (getResourcesFromDLL ref_platform (PyBytes ''a.exe'') (PyInt 10) True)
          (snd (addResourceToFile ref_platform (PyBytes ''a.exe'') (PyBytes ''hello'')
             (PyInt 10) (PyInt 7) (one_file_at 2147483647 ''a.exe'' []))) =
     [(LoadLibraryExA, [PyBytes ''a.exe'', PyInt 0, PyInt 35]),
      (EnumResourceNamesA, [PyInt (- 2147483647), PyInt 10, PyNone]),
      (FreeLibrary, [PyInt (- 2147483647)])]"
  by (simp add: addResourceToFile_def then_py_def openFileWindowsResources_run updateResource_run
        closeFileWindowsResources_run getResourcesFromDLL_run EnumResourceNames_run call_def
        from_ffi_def calls_of_def one_file_at_def ref_eval)

end
